theory Spec2Isabelle
  imports Main
begin

section \<open>JSON values as Python sees them\<close>

text \<open>
  The handlers of \<^verbatim>\<open>app.py\<close> work on what \<^verbatim>\<open>request.get_json\<close> returns: Python
  values built from \<^verbatim>\<open>None\<close>, \<^verbatim>\<open>bool\<close>, \<^verbatim>\<open>int\<close>, \<^verbatim>\<open>str\<close>, \<^verbatim>\<open>list\<close> and \<^verbatim>\<open>dict\<close>.
  JSON numbers are modelled as Python's unbounded ints (floats are not modelled). A
  \<^verbatim>\<open>str\<close> is a list of characters, each standing for one code point below 256. A
  \<^verbatim>\<open>dict\<close> is an association list holding each key once.
\<close>

datatype json =
    JNull
  | JBool bool
  | JInt int
  | JStr string
  | JArr "json list"
  | JObj "(string \<times> json) list"

text \<open>Python's truth value of an object (\<^verbatim>\<open>not x\<close>, \<^verbatim>\<open>x or y\<close>, \<^verbatim>\<open>x and y\<close>).\<close>

fun truthy :: "json \<Rightarrow> bool" where
  "truthy JNull = False"
| "truthy (JBool b) = b"
| "truthy (JInt n) = (n \<noteq> 0)"
| "truthy (JStr s) = (s \<noteq> [])"
| "truthy (JArr xs) = (xs \<noteq> [])"
| "truthy (JObj kvs) = (kvs \<noteq> [])"

text \<open>\<^verbatim>\<open>data.get(name)\<close>: the value under the key, \<^verbatim>\<open>None\<close> when the key is missing.\<close>

definition dict_get :: "(string \<times> json) list \<Rightarrow> string \<Rightarrow> json" where
  "dict_get kvs name = (case map_of kvs name of None \<Rightarrow> JNull | Some v \<Rightarrow> v)"

subsection \<open>\<^verbatim>\<open>str(x)\<close> and \<^verbatim>\<open>str.strip()\<close>\<close>

text \<open>
  \<^verbatim>\<open>str.strip()\<close> with no argument removes leading and trailing whitespace, that is the
  characters for which \<^verbatim>\<open>str.isspace\<close> holds. Below code point 256 these are
  9 to 13, 28 to 32, 133 and 160.
\<close>

definition py_isspace :: "char \<Rightarrow> bool" where
  "py_isspace c =
     (let n = (of_char c :: nat)
      in (9 \<le> n \<and> n \<le> 13) \<or> (28 \<le> n \<and> n \<le> 32) \<or> n = 133 \<or> n = 160)"

definition strip :: "string \<Rightarrow> string" where
  "strip s = rev (dropWhile py_isspace (rev (dropWhile py_isspace s)))"

text \<open>Decimal digits of a natural number, and Python's \<^verbatim>\<open>str\<close> of an int.\<close>

fun digits :: "nat \<Rightarrow> string" where
  "digits n = (if n < 10 then [''0123456789'' ! n]
               else digits (n div 10) @ [''0123456789'' ! (n mod 10)])"

definition dec :: "int \<Rightarrow> string" where
  "dec i = (if i < 0 then CHR ''-'' # digits (nat (- i)) else digits (nat i))"

text \<open>\<^verbatim>\<open>sep.join(parts)\<close>.\<close>

fun join :: "string \<Rightarrow> string list \<Rightarrow> string" where
  "join sep [] = []"
| "join sep [x] = x"
| "join sep (x # y # ys) = x @ sep @ join sep (y # ys)"

text \<open>
  \<^verbatim>\<open>repr(x)\<close>, which \<^verbatim>\<open>str\<close> of a list or dict applies to the elements. A \<^verbatim>\<open>str\<close>
  element is rendered between single quotes; Python's choice of the quote character and its
  escapes inside the quotes are not modelled (the handler only tests the rendering of a
  payload for blankness).
\<close>

fun py_repr :: "json \<Rightarrow> string" where
  "py_repr JNull = ''None''"
| "py_repr (JBool b) = (if b then ''True'' else ''False'')"
| "py_repr (JInt n) = dec n"
| "py_repr (JStr s) = [CHR 0x27] @ s @ [CHR 0x27]"
| "py_repr (JArr xs) = ''['' @ join '', '' (map py_repr xs) @ '']''"
| "py_repr (JObj kvs) =
     ''{'' @ join '', '' (map (\<lambda>kv. [CHR 0x27] @ fst kv @ [CHR 0x27] @ '': '' @ py_repr (snd kv)) kvs) @ ''}''"

text \<open>\<^verbatim>\<open>str(x)\<close>: a \<^verbatim>\<open>str\<close> is returned as it is, everything else as its \<^verbatim>\<open>repr\<close>.\<close>

definition py_str :: "json \<Rightarrow> string" where
  "py_str x = (case x of JStr s \<Rightarrow> s | _ \<Rightarrow> py_repr x)"

section \<open>The \<^verbatim>\<open>sqlite3\<close> layer\<close>

text \<open>
  Exceptions the handlers can raise. None of them is caught in \<^verbatim>\<open>app.py\<close>, so each
  one reaches Flask, which answers 500. \<open>BindError\<close> is what \<^verbatim>\<open>sqlite3\<close> raises for a
  parameter of an unsupported type (\<^verbatim>\<open>InterfaceError\<close> or \<^verbatim>\<open>ProgrammingError\<close>, by Python
  version). Failures of the infrastructure (I/O, locking, a full disk, exhausted row ids)
  are not modelled.
\<close>

datatype py_error =
    AttributeError
  | TypeError
  | IndexError
  | BindError
  | OverflowError
  | IntegrityError

text \<open>A value stored by SQLite (REAL and BLOB do not arise from the modelled values).\<close>

datatype sqlval = SqlNull | SqlInt int | SqlText string

text \<open>
  How \<^verbatim>\<open>sqlite3\<close> adapts a Python object bound to a \<^verbatim>\<open>?\<close>: \<^verbatim>\<open>None\<close> is NULL, an
  \<^verbatim>\<open>int\<close> (and so a \<^verbatim>\<open>bool\<close>, its subclass) is an INTEGER of 64 bits, a \<^verbatim>\<open>str\<close> is TEXT;
  a list or a dict cannot be bound.
\<close>

fun bind_param :: "json \<Rightarrow> py_error + sqlval" where
  "bind_param JNull = Inr SqlNull"
| "bind_param (JBool b) = Inr (SqlInt (if b then 1 else 0))"
| "bind_param (JInt n) =
     (if - (2 ^ 63) \<le> n \<and> n < 2 ^ 63 then Inr (SqlInt n) else Inl OverflowError)"
| "bind_param (JStr s) = Inr (SqlText s)"
| "bind_param (JArr xs) = Inl BindError"
| "bind_param (JObj kvs) = Inl BindError"

text \<open>The Python object \<^verbatim>\<open>sqlite3\<close> returns for a stored value.\<close>

fun to_python :: "sqlval \<Rightarrow> json" where
  "to_python SqlNull = JNull"
| "to_python (SqlInt n) = JInt n"
| "to_python (SqlText s) = JStr s"

text \<open>
  TEXT affinity, which SQLite applies to a value stored into a column declared \<^verbatim>\<open>TEXT\<close>
  and to a value compared with such a column: an integer becomes its decimal text.
\<close>

fun text_affinity :: "sqlval \<Rightarrow> sqlval" where
  "text_affinity (SqlInt n) = SqlText (dec n)"
| "text_affinity v = v"

subsection \<open>The two tables\<close>

text \<open>
  A table is the list of its rows in the order of insertion. The columns \<^verbatim>\<open>id\<close>,
  \<^verbatim>\<open>ui_element_id\<close> and \<^verbatim>\<open>created_at\<close> only ever receive Python ints (a row id read back,
  the server's clock), \<^verbatim>\<open>key\<close>, \<^verbatim>\<open>type\<close>, \<^verbatim>\<open>label\<close> and \<^verbatim>\<open>event_type\<close> only text;
  \<^verbatim>\<open>payload\<close> is nullable.
\<close>

record ui_element =
  el_id :: int
  el_key :: string
  el_type :: string
  el_label :: string

record event =
  ev_id :: int
  ev_event_type :: string
  ev_ui_element_id :: int
  ev_payload :: sqlval
  ev_created_at :: int

record db =
  ui_elements :: "ui_element list"
  events :: "event list"

text \<open>
  The id of a new row of an \<^verbatim>\<open>INTEGER PRIMARY KEY AUTOINCREMENT\<close> table: one more than
  the largest id used so far, 1 in a table never written. No statement of \<^verbatim>\<open>app.py\<close>
  deletes a row, so the largest id used so far is the largest id present.
\<close>

definition new_rowid :: "int list \<Rightarrow> int" where
  "new_rowid ids = fold max ids 0 + 1"

subsection \<open>Connections and rows\<close>

text \<open>
  \<^verbatim>\<open>sqlite3.connect\<close> returns a connection whose \<^verbatim>\<open>row_factory\<close> is \<^verbatim>\<open>None\<close> (rows are
  tuples) and on which SQLite's enforcement of foreign keys is off, its default;
  \<^verbatim>\<open>app.py\<close> never executes \<^verbatim>\<open>PRAGMA foreign_keys = ON\<close>. \<^verbatim>\<open>get_db\<close> sets
  \<^verbatim>\<open>row_factory\<close> to \<^verbatim>\<open>sqlite3.Row\<close>; \<^verbatim>\<open>init_db\<close> uses the connection as it comes.
\<close>

datatype factory = TupleFactory | RowFactory

record conn =
  row_factory :: factory
  foreign_keys :: bool

definition connect :: conn where
  "connect = \<lparr>row_factory = TupleFactory, foreign_keys = False\<rparr>"

definition get_db :: conn where
  "get_db = connect\<lparr>row_factory := RowFactory\<rparr>"

text \<open>A fetched row: a tuple of the column values, or a \<^verbatim>\<open>sqlite3.Row\<close> that also knows the column names.\<close>

datatype 'v pyrow = TupleRow "'v list" | SqliteRow "(string \<times> 'v) list"

definition make_row :: "conn \<Rightarrow> (string \<times> 'v) list \<Rightarrow> 'v pyrow" where
  "make_row c cols =
     (case row_factory c of
        TupleFactory \<Rightarrow> TupleRow (map snd cols)
      | RowFactory \<Rightarrow> SqliteRow cols)"

text \<open>
  \<^verbatim>\<open>row["name"]\<close>: a tuple takes integer indices only and raises \<^verbatim>\<open>TypeError\<close>; a
  \<^verbatim>\<open>sqlite3.Row\<close> returns the column of that name and raises \<^verbatim>\<open>IndexError\<close> when there is none.
\<close>

fun row_getitem :: "'v pyrow \<Rightarrow> string \<Rightarrow> py_error + 'v" where
  "row_getitem (TupleRow vs) name = Inl TypeError"
| "row_getitem (SqliteRow cols) name =
     (case map_of cols name of None \<Rightarrow> Inl IndexError | Some v \<Rightarrow> Inr v)"

text \<open>
  \<^verbatim>\<open>dict(row)\<close>: the columns of a \<^verbatim>\<open>sqlite3.Row\<close> by name. Every row the handlers convert
  starts with an integer id, and \<^verbatim>\<open>dict\<close> of a tuple whose first element is an int raises
  \<^verbatim>\<open>TypeError\<close>.
\<close>

fun py_dict :: "json pyrow \<Rightarrow> py_error + json" where
  "py_dict (TupleRow vs) = Inl TypeError"
| "py_dict (SqliteRow cols) = Inr (JObj cols)"

text \<open>\<^verbatim>\<open>[dict(r) for r in rows]\<close>: the first exception ends the comprehension.\<close>

fun dict_all :: "json pyrow list \<Rightarrow> py_error + json list" where
  "dict_all [] = Inr []"
| "dict_all (r # rs) =
     (case py_dict r of
        Inl e \<Rightarrow> Inl e
      | Inr x \<Rightarrow> (case dict_all rs of Inl e \<Rightarrow> Inl e | Inr xs \<Rightarrow> Inr (x # xs)))"

section \<open>Initialisation: \<^verbatim>\<open>init_db\<close>\<close>

text \<open>The rows of the \<^verbatim>\<open>executemany\<close> of \<^verbatim>\<open>init_db\<close>: key, type, label.\<close>

definition seed_rows :: "(string \<times> string \<times> string) list" where
  "seed_rows =
     [(''btn_red'', ''button'', ''Red Button''),
      (''btn_blue'', ''button'', ''Blue Button''),
      (''txt_note'', ''text_input'', ''Note''),
      (''txt_idea'', ''text_input'', ''Idea'')]"

text \<open>
  \<^verbatim>\<open>INSERT INTO ui_elements (key, type, label) VALUES (?, ?, ?)\<close>: the \<^verbatim>\<open>CHECK\<close> on
  \<^verbatim>\<open>type\<close> and the \<^verbatim>\<open>UNIQUE\<close> on \<^verbatim>\<open>key\<close> raise \<^verbatim>\<open>IntegrityError\<close>.
\<close>

definition insert_element :: "db \<Rightarrow> string \<times> string \<times> string \<Rightarrow> py_error + db" where
  "insert_element d r =
     (case r of (k, t, l) \<Rightarrow>
        if t \<notin> set [''button'', ''text_input''] then Inl IntegrityError
        else if k \<in> set (map el_key (ui_elements d)) then Inl IntegrityError
        else Inr (d\<lparr>ui_elements := ui_elements d @
               [\<lparr>el_id = new_rowid (map el_id (ui_elements d)),
                 el_key = k, el_type = t, el_label = l\<rparr>]\<rparr>))"

fun executemany_elements :: "db \<Rightarrow> (string \<times> string \<times> string) list \<Rightarrow> py_error + db" where
  "executemany_elements d [] = Inr d"
| "executemany_elements d (r # rs) =
     (case insert_element d r of
        Inl e \<Rightarrow> Inl e
      | Inr d' \<Rightarrow> executemany_elements d' rs)"

text \<open>
  The database file: \<open>None\<close> when it does not exist (or holds no table yet). The two
  \<^verbatim>\<open>CREATE TABLE IF NOT EXISTS\<close> statements leave existing tables alone. \<^verbatim>\<open>sqlite3\<close>
  opens no transaction for them, so the tables are durable as soon as they are created.
\<close>

definition create_tables :: "db option \<Rightarrow> db" where
  "create_tables file =
     (case file of None \<Rightarrow> \<lparr>ui_elements = [], events = []\<rparr> | Some d \<Rightarrow> d)"

text \<open>
  \<^verbatim>\<open>init_db\<close> (lines 21 to 53) returns the exception it raises, if any, and the file it
  leaves. Its connection comes from \<^verbatim>\<open>sqlite3.connect\<close> directly, and the row of
  \<^verbatim>\<open>SELECT COUNT(*) AS c FROM ui_elements\<close> is read by \<^verbatim>\<open>cur.fetchone()["c"]\<close>. An insert
  that raises is never committed.
\<close>

definition init_db :: "db option \<Rightarrow> (py_error + unit) \<times> db option" where
  "init_db file =
     (let c = connect;
          d = create_tables file;
          row = make_row c [(''c'', int (length (ui_elements d)))]
      in case row_getitem row ''c'' of
           Inl e \<Rightarrow> (Inl e, Some d)
         | Inr n \<Rightarrow>
             if n = 0 then
               (case executemany_elements d seed_rows of
                  Inl e \<Rightarrow> (Inl e, Some d)
                | Inr d' \<Rightarrow> (Inr (), Some d'))
             else (Inr (), Some d))"

text \<open>Lines 55 and 56: \<^verbatim>\<open>init_db\<close> runs at import when the file does not exist.\<close>

definition startup :: "db option \<Rightarrow> (py_error + unit) \<times> db option" where
  "startup file = (case file of None \<Rightarrow> init_db None | Some d \<Rightarrow> (Inr (), Some d))"

section \<open>The handlers\<close>

text \<open>
  What a handler returns: \<^verbatim>\<open>jsonify(x), status\<close> (status 200 when none is given), or the
  page of \<^verbatim>\<open>index\<close>, whose text is not modelled.
\<close>

datatype response = JsonResponse nat json | IndexPage

definition bad_request :: "string \<Rightarrow> response" where
  "bad_request msg = JsonResponse 400 (JObj [(''error'', JStr msg)])"

subsection \<open>\<^verbatim>\<open>GET /elements\<close>\<close>

text \<open>\<^verbatim>\<open>SELECT id, key, type, label FROM ui_elements ORDER BY id\<close>, \<^verbatim>\<open>fetchall\<close>.\<close>

definition select_elements :: "conn \<Rightarrow> db \<Rightarrow> json pyrow list" where
  "select_elements c d =
     map (\<lambda>u. make_row c
            [(''id'', JInt (el_id u)), (''key'', JStr (el_key u)),
             (''type'', JStr (el_type u)), (''label'', JStr (el_label u))])
       (sort_key el_id (ui_elements d))"

definition list_elements :: "db \<Rightarrow> (py_error + response) \<times> db" where
  "list_elements d =
     (case dict_all (select_elements get_db d) of
        Inl e \<Rightarrow> (Inl e, d)
      | Inr xs \<Rightarrow> (Inr (JsonResponse 200 (JArr xs)), d))"

subsection \<open>\<^verbatim>\<open>GET /\<close>\<close>

definition index :: "db \<Rightarrow> (py_error + response) \<times> db" where
  "index d = (Inr IndexPage, d)"

subsection \<open>\<^verbatim>\<open>POST /events\<close>\<close>

text \<open>
  \<^verbatim>\<open>SELECT id FROM ui_elements WHERE key = ?\<close>, \<^verbatim>\<open>fetchone\<close>. The parameter is compared
  with a \<^verbatim>\<open>TEXT\<close> column, so it takes TEXT affinity first.
\<close>

definition select_id_by_key :: "conn \<Rightarrow> db \<Rightarrow> json \<Rightarrow> py_error + int pyrow option" where
  "select_id_by_key c d element_key =
     (case bind_param element_key of
        Inl e \<Rightarrow> Inl e
      | Inr k \<Rightarrow>
          Inr (case find (\<lambda>u. text_affinity k = SqlText (el_key u)) (ui_elements d) of
                 None \<Rightarrow> None
               | Some u \<Rightarrow> Some (make_row c [(''id'', el_id u)])))"

text \<open>
  The \<^verbatim>\<open>INSERT INTO events\<close> of lines 85 to 88, returning the new table and the
  connection's \<^verbatim>\<open>last_insert_rowid()\<close>. \<^verbatim>\<open>event_type\<close> and \<^verbatim>\<open>payload\<close> are bound as the
  request gave them and take the TEXT affinity of their columns; \<^verbatim>\<open>NOT NULL\<close> and the
  \<^verbatim>\<open>CHECK\<close> on \<^verbatim>\<open>event_type\<close> raise \<^verbatim>\<open>IntegrityError\<close>. The \<^verbatim>\<open>FOREIGN KEY\<close> clause is
  checked only on a connection that enforces foreign keys.
\<close>

definition insert_event ::
    "conn \<Rightarrow> db \<Rightarrow> json \<Rightarrow> int \<Rightarrow> json \<Rightarrow> int \<Rightarrow> py_error + db \<times> int" where
  "insert_event c d event_type ui_element_id payload created_at =
     (case bind_param event_type of
        Inl e \<Rightarrow> Inl e
      | Inr et \<Rightarrow>
          (case bind_param payload of
             Inl e \<Rightarrow> Inl e
           | Inr p \<Rightarrow>
               (case text_affinity et of
                  SqlText t \<Rightarrow>
                    if t \<notin> set [''click'', ''text_submit''] then Inl IntegrityError
                    else if foreign_keys c \<and> ui_element_id \<notin> set (map el_id (ui_elements d))
                    then Inl IntegrityError
                    else
                      (let rowid = new_rowid (map ev_id (events d))
                       in Inr (d\<lparr>events := events d @
                                 [\<lparr>ev_id = rowid, ev_event_type = t,
                                   ev_ui_element_id = ui_element_id,
                                   ev_payload = text_affinity p,
                                   ev_created_at = created_at\<rparr>]\<rparr>, rowid))
                | _ \<Rightarrow> Inl IntegrityError)))"

text \<open>The rows of \<^verbatim>\<open>events e JOIN ui_elements u ON e.ui_element_id = u.id\<close>.\<close>

definition joined :: "db \<Rightarrow> (event \<times> ui_element) list" where
  "joined d =
     concat (map (\<lambda>e. map (\<lambda>u. (e, u))
                        (filter (\<lambda>u. ev_ui_element_id e = el_id u) (ui_elements d)))
               (events d))"

text \<open>The read-back of lines 92 to 98: the first joined row \<^verbatim>\<open>WHERE e.id = ?\<close>, or \<^verbatim>\<open>None\<close>.\<close>

definition select_created :: "conn \<Rightarrow> db \<Rightarrow> int \<Rightarrow> json pyrow option" where
  "select_created c d evt_id =
     (case filter (\<lambda>eu. ev_id (fst eu) = evt_id) (joined d) of
        [] \<Rightarrow> None
      | eu # _ \<Rightarrow>
          Some (make_row c
            [(''id'', JInt (ev_id (fst eu))),
             (''event_type'', JStr (ev_event_type (fst eu))),
             (''payload'', to_python (ev_payload (fst eu))),
             (''created_at'', JInt (ev_created_at (fst eu))),
             (''element_key'', JStr (el_key (snd eu))),
             (''element_label'', JStr (el_label (snd eu))),
             (''element_type'', JStr (el_type (snd eu)))]))"

text \<open>
  \<^verbatim>\<open>create_event\<close> (lines 66 to 99). \<open>body\<close> is what \<^verbatim>\<open>request.get_json(silent=True)\<close>
  returns: \<open>None\<close> for a body that is absent, is not declared as JSON or does not parse.
  \<open>now\<close> is \<^verbatim>\<open>int(time.time())\<close>. The result is the response or the exception raised,
  and the database as committed: an exception raised after \<^verbatim>\<open>db.commit()\<close> keeps the
  inserted row.
\<close>

definition create_event :: "int \<Rightarrow> json option \<Rightarrow> db \<Rightarrow> (py_error + response) \<times> db" where
  "create_event now body d =
     (case (case body of None \<Rightarrow> JObj [] | Some j \<Rightarrow> if truthy j then j else JObj []) of
        JObj data \<Rightarrow>
          (let element_key = dict_get data ''element_key'';
               event_type = dict_get data ''event_type'';
               payload = dict_get data ''payload''
           in if event_type \<notin> set [JStr ''click'', JStr ''text_submit'']
              then (Inr (bad_request ''invalid event_type''), d)
              else if \<not> truthy element_key
              then (Inr (bad_request ''element_key required''), d)
              else if event_type = JStr ''text_submit''
                      \<and> \<not> (truthy payload \<and> strip (py_str payload) \<noteq> [])
              then (Inr (bad_request ''payload required for text_submit''), d)
              else
                (case select_id_by_key get_db d element_key of
                   Inl e \<Rightarrow> (Inl e, d)
                 | Inr None \<Rightarrow> (Inr (bad_request ''unknown element_key''), d)
                 | Inr (Some row) \<Rightarrow>
                     (case row_getitem row ''id'' of
                        Inl e \<Rightarrow> (Inl e, d)
                      | Inr elt_id \<Rightarrow>
                          (case insert_event get_db d event_type elt_id payload now of
                             Inl e \<Rightarrow> (Inl e, d)
                           | Inr (d', rowid) \<Rightarrow>
                               (case row_getitem (make_row get_db [(''id'', rowid)]) ''id'' of
                                  Inl e \<Rightarrow> (Inl e, d')
                                | Inr evt_id \<Rightarrow>
                                    (case select_created get_db d' evt_id of
                                       None \<Rightarrow> (Inl TypeError, d')
                                     | Some created \<Rightarrow>
                                         (case py_dict created of
                                            Inl e \<Rightarrow> (Inl e, d')
                                          | Inr x \<Rightarrow> (Inr (JsonResponse 201 x), d'))))))))
      | _ \<Rightarrow> (Inl AttributeError, d))"

section \<open>Constraints and validations as the specification words them\<close>

text \<open>
  The uniqueness constraints of the schema: \<^verbatim>\<open>PRIMARY KEY\<close> on both \<^verbatim>\<open>id\<close> columns and
  \<^verbatim>\<open>UNIQUE\<close> on \<^verbatim>\<open>ui_elements.key\<close>. SQLite maintains them; the theorems below assume
  them of the store a request finds.
\<close>

definition unique_constraints :: "db \<Rightarrow> bool" where
  "unique_constraints d =
     (distinct (map el_id (ui_elements d)) \<and> distinct (map el_key (ui_elements d))
      \<and> distinct (map ev_id (events d)))"



section \<open>Initialisation never seeds\<close>

text \<open>
  The connection of \<^verbatim>\<open>init_db\<close> has no row factory, so the count row is a tuple and
  \<^verbatim>\<open>cur.fetchone()["c"]\<close> raises \<^verbatim>\<open>TypeError\<close> on every file: the tables are created,
  the seeding branch is never reached.
\<close>

lemma init_db_raises: "init_db file = (Inl TypeError, Some (create_tables file))"
  by (simp add: init_db_def connect_def make_row_def)

text \<open>What the \<^verbatim>\<open>executemany\<close> of the seeding branch would insert into the empty table.\<close>

lemma seeding_inserts_four:
  "executemany_elements \<lparr>ui_elements = [], events = []\<rparr> seed_rows =
     Inr \<lparr>ui_elements =
           [\<lparr>el_id = 1, el_key = ''btn_red'', el_type = ''button'', el_label = ''Red Button''\<rparr>,
            \<lparr>el_id = 2, el_key = ''btn_blue'', el_type = ''button'', el_label = ''Blue Button''\<rparr>,
            \<lparr>el_id = 3, el_key = ''txt_note'', el_type = ''text_input'', el_label = ''Note''\<rparr>,
            \<lparr>el_id = 4, el_key = ''txt_idea'', el_type = ''text_input'', el_label = ''Idea''\<rparr>],
          events = []\<rparr>"
  by (simp add: seed_rows_def insert_element_def new_rowid_def)

text \<open>
  C6 (the code departs from it): initialisation of a store that starts empty should leave
  exactly the four seed rows, also when it runs twice. \<^verbatim>\<open>init_db\<close> on a missing file
  raises \<^verbatim>\<open>TypeError\<close> and leaves both tables empty, and so does the second run.
\<close>

theorem init_db_never_seeds:
  "init_db None = (Inl TypeError, Some \<lparr>ui_elements = [], events = []\<rparr>)
   \<and> init_db (snd (init_db None)) = (Inl TypeError, Some \<lparr>ui_elements = [], events = []\<rparr>)"
  by (simp add: init_db_raises create_tables_def)

text \<open>
  C7 (the code departs from it): after a fresh initialisation \<^verbatim>\<open>GET /elements\<close> should
  return the four seeded rows. The start of the program on a missing file ends in
  \<^verbatim>\<open>TypeError\<close> with an empty \<^verbatim>\<open>ui_elements\<close> table, on which \<^verbatim>\<open>GET /elements\<close>
  answers 200 with the empty array.
\<close>

theorem elements_empty_after_startup:
  "startup None = (Inl TypeError, Some \<lparr>ui_elements = [], events = []\<rparr>)
   \<and> list_elements \<lparr>ui_elements = [], events = []\<rparr>
       = (Inr (JsonResponse 200 (JArr [])), \<lparr>ui_elements = [], events = []\<rparr>)"
  by (simp add: startup_def init_db_raises create_tables_def list_elements_def
      select_elements_def)

section \<open>The insert does not check the foreign key\<close>


section \<open>Bodies that are not objects\<close>

text \<open>
  A body that is absent or does not parse, and a body that is a falsy JSON value, are
  replaced by the empty dict and answered 400; a truthy body that is not an object raises.
\<close>

lemma create_event_empty_body:
  assumes "body = None \<or> (\<exists>j. body = Some j \<and> \<not> truthy j)"
  shows "create_event now body d = (Inr (bad_request ''invalid event_type''), d)"
  using assms by (auto simp: create_event_def dict_get_def Let_def)

lemma create_event_not_object:
  assumes "truthy j" and "\<forall>data. j \<noteq> JObj data"
  shows "create_event now (Some j) d = (Inl AttributeError, d)"
  using assms by (cases j) (simp_all add: create_event_def)

text \<open>
  C9 (the code departs from it): a body that is not a JSON object with an
  \<^verbatim>\<open>event_type\<close> should be answered 400 \<^verbatim>\<open>invalid event_type\<close>. The body \<^verbatim>\<open>[1]\<close> is
  truthy, so \<^verbatim>\<open>or {}\<close> keeps it, and \<^verbatim>\<open>data.get\<close> on a list raises \<^verbatim>\<open>AttributeError\<close>.
\<close>

theorem create_event_array_body:
  "create_event now (Some (JArr [JInt 1])) d = (Inl AttributeError, d)"
  by (simp add: create_event_def)

section \<open>Row ids and the read-back\<close>

lemma fold_max_mono: "(a::int) \<le> fold max ids a"
proof (induction ids arbitrary: a)
  case Nil
  show ?case by simp
next
  case (Cons x xs)
  have "a \<le> max x a" by simp
  also have "\<dots> \<le> fold max xs (max x a)" by (rule Cons.IH)
  finally show ?case by simp
qed

lemma fold_max_upper: "x \<in> set ids \<Longrightarrow> (x::int) \<le> fold max ids a"
proof (induction ids arbitrary: a)
  case Nil
  then show ?case by simp
next
  case (Cons y ys)
  show ?case
  proof (cases "x = y")
    case True
    have "x \<le> max y a" using True by simp
    also have "\<dots> \<le> fold max ys (max y a)" by (rule fold_max_mono)
    finally show ?thesis by simp
  next
    case False
    with Cons.prems have "x \<in> set ys" by simp
    then show ?thesis using Cons.IH by simp
  qed
qed

lemma new_rowid_fresh: "x \<in> set ids \<Longrightarrow> x < new_rowid ids"
  using fold_max_upper [of x ids 0] by (simp add: new_rowid_def)

lemma new_rowid_not_in: "new_rowid ids \<notin> set ids"
  using new_rowid_fresh [of "new_rowid ids" ids] by auto












section \<open>The validations of \<^verbatim>\<open>POST /events\<close>\<close>










section \<open>Created events\<close>






section \<open>Rows are only ever appended\<close>

lemma insert_event_shape:
  assumes "insert_event c d et i p now = Inr (d', r)"
  shows "\<exists>e. ev_id e = new_rowid (map ev_id (events d)) \<and> d' = d\<lparr>events := events d @ [e]\<rparr>"
proof -
  from assms obtain t v where "d' = d\<lparr>events := events d @
      [\<lparr>ev_id = new_rowid (map ev_id (events d)), ev_event_type = t,
        ev_ui_element_id = i, ev_payload = v, ev_created_at = now\<rparr>]\<rparr>"
    by (auto simp: insert_event_def Let_def split: sum.splits sqlval.splits if_splits)
  then show ?thesis
    by (intro exI [where x = "\<lparr>ev_id = new_rowid (map ev_id (events d)), ev_event_type = t,
        ev_ui_element_id = i, ev_payload = v, ev_created_at = now\<rparr>"]) simp
qed

lemma read_back_db:
  "snd (case row_getitem R ''id'' of
          Inl e \<Rightarrow> (Inl e, d')
        | Inr evt_id \<Rightarrow>
            (case select_created c d' evt_id of
               None \<Rightarrow> (Inl TypeError, d')
             | Some created \<Rightarrow>
                 (case py_dict created of
                    Inl e \<Rightarrow> (Inl e, d')
                  | Inr x \<Rightarrow> (Inr (JsonResponse 201 x), d')))) = d'"
  by (simp split: sum.split option.split)

lemma store_part_shape:
  assumes "R = (case select_id_by_key c d k of
          Inl e \<Rightarrow> (Inl e, d)
        | Inr None \<Rightarrow> (Inr (bad_request ''unknown element_key''), d)
        | Inr (Some row) \<Rightarrow>
            (case row_getitem row ''id'' of
               Inl e \<Rightarrow> (Inl e, d)
             | Inr elt_id \<Rightarrow>
                 (case insert_event c d et elt_id p now of
                    Inl e \<Rightarrow> (Inl e, d)
                  | Inr (d', rowid) \<Rightarrow>
                      (case row_getitem (make_row c [(''id'', rowid)]) ''id'' of
                         Inl e \<Rightarrow> (Inl e, d')
                       | Inr evt_id \<Rightarrow>
                           (case select_created c d' evt_id of
                              None \<Rightarrow> (Inl TypeError, d')
                            | Some created \<Rightarrow>
                                (case py_dict created of
                                   Inl e \<Rightarrow> (Inl e, d')
                                 | Inr x \<Rightarrow> (Inr (JsonResponse 201 x), d')))))))"
  shows "snd R = d
     \<or> (\<exists>e. ev_id e = new_rowid (map ev_id (events d)) \<and> snd R = d\<lparr>events := events d @ [e]\<rparr>)"
proof (cases "select_id_by_key c d k")
  case (Inl e)
  with assms show ?thesis by simp
next
  case sel: (Inr ro)
  show ?thesis
  proof (cases ro)
    case None
    with sel assms show ?thesis by simp
  next
    case (Some row)
    show ?thesis
    proof (cases "row_getitem row ''id''")
      case (Inl e)
      with sel Some assms show ?thesis by simp
    next
      case gi: (Inr elt_id)
      show ?thesis
      proof (cases "insert_event c d et elt_id p now")
        case (Inl e)
        with sel Some gi assms show ?thesis by simp
      next
        case ins: (Inr dr)
        obtain d' rowid where dr: "dr = (d', rowid)" by (cases dr)
        from ins dr have i: "insert_event c d et elt_id p now = Inr (d', rowid)" by simp
        have "snd R = d'" using assms sel Some gi i by (simp add: read_back_db)
        with insert_event_shape [OF i] show ?thesis by auto
      qed
    qed
  qed
qed

lemma create_event_shape:
  "snd (create_event now body d) = d
   \<or> (\<exists>e. ev_id e = new_rowid (map ev_id (events d))
          \<and> snd (create_event now body d) = d\<lparr>events := events d @ [e]\<rparr>)"
proof (cases "case body of None \<Rightarrow> JObj [] | Some j \<Rightarrow> if truthy j then j else JObj []")
  case (JObj data)
  show ?thesis
  proof (cases "dict_get data ''event_type'' \<notin> set [JStr ''click'', JStr ''text_submit'']
      \<or> \<not> truthy (dict_get data ''element_key'')
      \<or> (dict_get data ''event_type'' = JStr ''text_submit''
           \<and> \<not> (truthy (dict_get data ''payload'')
                  \<and> strip (py_str (dict_get data ''payload'')) \<noteq> []))")
    case True
    then have "snd (create_event now body d) = d"
      unfolding create_event_def Let_def JObj by auto
    then show ?thesis by simp
  next
    case False
    show ?thesis
      by (rule store_part_shape [where c = get_db and k = "dict_get data ''element_key''"
            and et = "dict_get data ''event_type''" and p = "dict_get data ''payload''"
            and now = now])
         (use False in \<open>auto simp: create_event_def Let_def JObj\<close>)
  qed
qed (simp_all add: create_event_def)

lemma create_event_keeps:
  "ui_elements (snd (create_event now body d)) = ui_elements d
   \<and> take (length (events d)) (events (snd (create_event now body d))) = events d"
  using create_event_shape [of now body d] by auto

text \<open>The constraints hold of the empty store, and \<^verbatim>\<open>POST /events\<close> keeps them.\<close>

lemma unique_constraints_empty: "unique_constraints \<lparr>ui_elements = [], events = []\<rparr>"
  by (simp add: unique_constraints_def)

lemma create_event_unique_constraints:
  assumes "unique_constraints d"
  shows "unique_constraints (snd (create_event now body d))"
proof -
  have "new_rowid (map ev_id (events d)) \<notin> set (map ev_id (events d))"
    by (rule new_rowid_not_in)
  with assms create_event_shape [of now body d] show ?thesis
    by (auto simp: unique_constraints_def)
qed

text \<open>
  C8: no operation updates or deletes a row. \<^verbatim>\<open>GET /elements\<close>, \<^verbatim>\<open>GET /\<close> and
  initialisation of an existing store (by \<^verbatim>\<open>init_db\<close>, or by the start of the program)
  return the store as it was; \<^verbatim>\<open>POST /events\<close> leaves \<^verbatim>\<open>ui_elements\<close> as it was, and
  the \<^verbatim>\<open>events\<close> table it returns starts with the rows it found, unchanged and in place.
\<close>

theorem rows_never_changed:
  "snd (list_elements d) = d
   \<and> snd (index d) = d
   \<and> snd (init_db (Some d)) = Some d
   \<and> snd (startup (Some d)) = Some d
   \<and> ui_elements (snd (create_event now body d)) = ui_elements d
   \<and> take (length (events d)) (events (snd (create_event now body d))) = events d"
proof -
  have "snd (list_elements d) = d"
    by (simp add: list_elements_def split: sum.splits)
  moreover have "snd (index d) = d" by (simp add: index_def)
  moreover have "snd (init_db (Some d)) = Some d"
    by (simp add: init_db_raises create_tables_def)
  moreover have "snd (startup (Some d)) = Some d" by (simp add: startup_def)
  ultimately show ?thesis using create_event_keeps [of now body d] by simp
qed

section \<open>Payloads that are not strings\<close>




end
